theory Spec2Isabelle
  imports Complex_Main "HOL-Library.Word" "HOL-Library.Sublist"
begin

section \<open>Strings: \<open>toLowerCase\<close> and \<open>trim\<close>\<close>

text \<open>
  A JavaScript string is a sequence of 16-bit code units. Item names are free text, so
  they are modelled as such sequences. Ids, account ids and alert titles are only ever
  compared or shown; they stay HOL strings.
\<close>

type_synonym jsstring = "16 word list"

text \<open>
  \<open>String.prototype.toLowerCase\<close> and the set of code units that
  \<open>String.prototype.trim\<close> strips (the white space and line terminators of ECMAScript,
  each a single code unit) belong to the engine and its Unicode tables. They are
  parameters of the model, as \<open>Date.parse\<close> is: every definition and theorem below holds
  for whatever the engine provides.
\<close>

record string_ops =
  toLowerCase :: "jsstring \<Rightarrow> jsstring"
  isWhiteSpace :: "16 word \<Rightarrow> bool"

text \<open>\<open>s.trim()\<close>: \<open>s\<close> without the white space at its two ends.\<close>

definition trim :: "string_ops \<Rightarrow> jsstring \<Rightarrow> jsstring" where
  "trim u s = rev (dropWhile (isWhiteSpace u) (rev (dropWhile (isWhiteSpace u) s)))"

text \<open>The identity of a grocery item: \<open>item.name.toLowerCase().trim()\<close>.\<close>

definition nameKey :: "string_ops \<Rightarrow> jsstring \<Rightarrow> jsstring" where
  "nameKey u n = trim u (toLowerCase u n)"


section \<open>Favorites: the list operations of \<open>FavoritesContext\<close>\<close>

text \<open>
  \<open>Recipe\<close> of the source; its \<open>id\<close> is the integer identifier handed out by the recipe
  API. The field names carry a prefix because \<open>id\<close> is a constant of HOL and
  \<open>GroceryItem\<close> has an \<open>id\<close> and a \<open>name\<close> as well.
\<close>

record Recipe =
  recipe_id :: int
  recipe_name :: string
  recipe_details :: string
  recipe_image :: string

text \<open>
  Each operation is the updater function the source hands to \<open>setFavorites\<close>: it maps the
  current list to the next one. The debounced \<open>saveFavorites\<close> that the updater schedules
  persists the list later and does not change it.
\<close>

definition addFavorite :: "Recipe \<Rightarrow> Recipe list \<Rightarrow> Recipe list" where
  "addFavorite recipe currentFavorites =
     (if list_ex (\<lambda>fav. recipe_id fav = recipe_id recipe) currentFavorites
      then currentFavorites
      else currentFavorites @ [recipe])"

definition removeFavorite :: "int \<Rightarrow> Recipe list \<Rightarrow> Recipe list" where
  "removeFavorite i currentFavorites = filter (\<lambda>r. recipe_id r \<noteq> i) currentFavorites"

definition toggleFavorite :: "Recipe \<Rightarrow> Recipe list \<Rightarrow> Recipe list" where
  "toggleFavorite recipe currentFavorites =
     (let isAlreadyFavorite = list_ex (\<lambda>fav. recipe_id fav = recipe_id recipe) currentFavorites
      in if isAlreadyFavorite
         then filter (\<lambda>r. recipe_id r \<noteq> recipe_id recipe) currentFavorites
         else currentFavorites @ [recipe])"

datatype favorites_op =
    AddFavorite Recipe
  | RemoveFavorite int
  | ToggleFavorite Recipe

fun applyFavoritesOp :: "Recipe list \<Rightarrow> favorites_op \<Rightarrow> Recipe list" where
  "applyFavoritesOp favs (AddFavorite r) = addFavorite r favs"
| "applyFavoritesOp favs (RemoveFavorite i) = removeFavorite i favs"
| "applyFavoritesOp favs (ToggleFavorite r) = toggleFavorite r favs"

definition runFavoritesOps :: "Recipe list \<Rightarrow> favorites_op list \<Rightarrow> Recipe list" where
  "runFavoritesOps favs ops = foldl applyFavoritesOp favs ops"



section \<open>Dates and \<open>safeToDate\<close>\<close>

text \<open>
  A JavaScript \<open>Date\<close> is its time value: milliseconds since the epoch, or \<open>NaN\<close>
  (\<open>None\<close> here) for an invalid date. \<open>isNaN(d.getTime())\<close> is \<open>getTime d = None\<close>.
\<close>

datatype Date = Date (getTime: "int option")

definition isValidDate :: "Date \<Rightarrow> bool" where
  "isValidDate d \<longleftrightarrow> getTime d \<noteq> None"

datatype jsnumber = Finite real | NaN | PosInfinity | NegInfinity

text \<open>
  \<open>new Date(n)\<close> for a number \<open>n\<close>: the time value is \<open>TimeClip(n)\<close>, which is \<open>NaN\<close>
  for a non-finite \<open>n\<close> or one beyond 8.64e15 in absolute value, and \<open>n\<close> truncated
  towards zero otherwise.
\<close>

definition timeClip :: "jsnumber \<Rightarrow> int option" where
  "timeClip n =
     (case n of
        Finite r \<Rightarrow>
          if \<bar>r\<bar> > 8640000000000000 then None
          else Some (if r < 0 then \<lceil>r\<rceil> else \<lfloor>r\<rfloor>)
      | _ \<Rightarrow> None)"

text \<open>
  The argument of \<open>safeToDate\<close> has type \<open>any\<close>. The cases the function tells apart:
  a \<open>Date\<close>, a string, a number, an object with a \<open>toDate\<close> method (what calling it
  does is part of the value: it throws, or it returns a \<open>Date\<close>, valid or not), and
  everything else (\<open>null\<close>, \<open>undefined\<close>, objects without \<open>toDate\<close>). A \<open>toDate\<close>
  that returns something other than a \<open>Date\<close> is left out: the source would hand that
  result back unchecked, as it does the invalid \<open>Date\<close>.
\<close>

datatype toDate_outcome = ToDateThrows | ToDateReturns Date

datatype dateValue =
    DateObject Date
  | StringValue string
  | NumberValue jsnumber
  | NullValue
  | UndefinedValue
  | ToDateObject toDate_outcome
  | OtherValue

text \<open>
  \<open>new Date()\<close> is the current time \<open>now\<close>, always a valid date. \<open>new Date(s)\<close> for a
  string \<open>s\<close> parses it with \<open>Date.parse\<close>, whose result on a string that is not in the
  ISO format is left to the implementation: it is the parameter \<open>parse\<close>.
\<close>

definition safeToDate :: "int \<Rightarrow> (string \<Rightarrow> int option) \<Rightarrow> dateValue \<Rightarrow> Date" where
  "safeToDate now parse dateValue =
     (case dateValue of
        DateObject d \<Rightarrow> if getTime d = None then Date (Some now) else d
      | StringValue s \<Rightarrow>
          (let date = Date (parse s) in if getTime date = None then Date (Some now) else date)
      | NumberValue n \<Rightarrow>
          (let date = Date (timeClip n) in if getTime date = None then Date (Some now) else date)
      | ToDateObject outcome \<Rightarrow>
          (case outcome of
             ToDateReturns d \<Rightarrow> d
           | ToDateThrows \<Rightarrow> Date (Some now))
      | _ \<Rightarrow> Date (Some now))"

text \<open>
  The inputs that give \<open>safeToDate\<close> no date of their own: an invalid \<open>Date\<close>, a string
  or a number that makes an invalid \<open>Date\<close>, an object whose \<open>toDate\<close> throws, and every
  value of another kind.
\<close>

definition unparseable :: "(string \<Rightarrow> int option) \<Rightarrow> dateValue \<Rightarrow> bool" where
  "unparseable parse v =
     (case v of
        DateObject d \<Rightarrow> getTime d = None
      | StringValue s \<Rightarrow> parse s = None
      | NumberValue n \<Rightarrow> timeClip n = None
      | ToDateObject outcome \<Rightarrow> outcome = ToDateThrows
      | _ \<Rightarrow> True)"


section \<open>Grocery list: the list operations of \<open>GroceryContext\<close>\<close>

record GroceryItem =
  item_id :: string
  item_name :: jsstring
  item_checked :: bool
  item_addedAt :: Date

text \<open>
  \<open>addGroceryItem\<close>: the guard on a blank ingredient, then the updater handed to
  \<open>setGroceryItems\<close>. The id of a new item (\<open>Date.now()\<close> and \<open>Math.random()\<close>) and its
  \<open>addedAt\<close> (\<open>new Date()\<close>) come from the environment: they are the arguments \<open>newId\<close>
  and \<open>now\<close>.
\<close>

definition addGroceryItem ::
  "string_ops \<Rightarrow> jsstring \<Rightarrow> string \<Rightarrow> int \<Rightarrow> GroceryItem list \<Rightarrow> GroceryItem list" where
  "addGroceryItem u ingredient newId now currentItems =
     (if ingredient = [] \<or> trim u ingredient = [] then currentItems
      else
        case find (\<lambda>item. nameKey u (item_name item) = nameKey u ingredient) currentItems of
          Some existingItem \<Rightarrow>
            if item_checked existingItem
            then map (\<lambda>item. if item_id item = item_id existingItem
                              then item\<lparr>item_checked := False\<rparr> else item) currentItems
            else currentItems
        | None \<Rightarrow>
            currentItems @
              [\<lparr>item_id = newId, item_name = trim u ingredient, item_checked = False,
                item_addedAt = Date (Some now)\<rparr>])"

definition removeGroceryItem :: "string \<Rightarrow> GroceryItem list \<Rightarrow> GroceryItem list" where
  "removeGroceryItem i currentItems = filter (\<lambda>item. item_id item \<noteq> i) currentItems"

definition removeGroceryItemByName ::
  "string_ops \<Rightarrow> jsstring \<Rightarrow> GroceryItem list \<Rightarrow> GroceryItem list" where
  "removeGroceryItemByName u n currentItems =
     filter (\<lambda>item. nameKey u (item_name item) \<noteq> nameKey u n) currentItems"

definition toggleGroceryItem :: "string \<Rightarrow> GroceryItem list \<Rightarrow> GroceryItem list" where
  "toggleGroceryItem i currentItems =
     map (\<lambda>item. if item_id item = i then item\<lparr>item_checked := \<not> item_checked item\<rparr> else item)
       currentItems"

definition clearCheckedItems :: "GroceryItem list \<Rightarrow> GroceryItem list" where
  "clearCheckedItems currentItems = filter (\<lambda>item. \<not> item_checked item) currentItems"

definition clearAllItems :: "GroceryItem list \<Rightarrow> GroceryItem list" where
  "clearAllItems currentItems = []"

datatype grocery_op =
    AddGroceryItem jsstring string int
  | RemoveGroceryItem string
  | RemoveGroceryItemByName jsstring
  | ToggleGroceryItem string
  | ClearCheckedItems
  | ClearAllItems

fun applyGroceryOp :: "string_ops \<Rightarrow> GroceryItem list \<Rightarrow> grocery_op \<Rightarrow> GroceryItem list" where
  "applyGroceryOp u items (AddGroceryItem ingredient newId now) =
     addGroceryItem u ingredient newId now items"
| "applyGroceryOp u items (RemoveGroceryItem i) = removeGroceryItem i items"
| "applyGroceryOp u items (RemoveGroceryItemByName n) = removeGroceryItemByName u n items"
| "applyGroceryOp u items (ToggleGroceryItem i) = toggleGroceryItem i items"
| "applyGroceryOp u items ClearCheckedItems = clearCheckedItems items"
| "applyGroceryOp u items ClearAllItems = clearAllItems items"

definition runGroceryOps ::
  "string_ops \<Rightarrow> GroceryItem list \<Rightarrow> grocery_op list \<Rightarrow> GroceryItem list" where
  "runGroceryOps u items ops = foldl (applyGroceryOp u) items ops"


section \<open>The merge of the manual sync\<close>

text \<open>
  \<open>mergedFavorites\<close> starts as a copy of the Firestore list; the \<open>forEach\<close> over the
  anonymous list pushes every entry whose id is not yet in \<open>mergedFavorites\<close>, which by
  then holds the entries pushed before.
\<close>

definition mergeFavorites :: "Recipe list \<Rightarrow> Recipe list \<Rightarrow> Recipe list" where
  "mergeFavorites firestoreFavorites anonymousFavorites =
     foldl (\<lambda>mergedFavorites localFav.
              if \<not> list_ex (\<lambda>fav. recipe_id fav = recipe_id localFav) mergedFavorites
              then mergedFavorites @ [localFav] else mergedFavorites)
       firestoreFavorites anonymousFavorites"

definition mergeGrocery ::
  "string_ops \<Rightarrow> GroceryItem list \<Rightarrow> GroceryItem list \<Rightarrow> GroceryItem list" where
  "mergeGrocery u firestoreGrocery anonymousGrocery =
     foldl (\<lambda>mergedGrocery localItem.
              if \<not> list_ex (\<lambda>item. nameKey u (item_name item) = nameKey u (item_name localItem))
                     mergedGrocery
              then mergedGrocery @ [localItem] else mergedGrocery)
       firestoreGrocery anonymousGrocery"

text \<open>
  The list that a run of the sync puts into the Local Cache, from the list read from
  Firestore and the list read from the anonymous store: the Firestore list as it is when
  there is nothing anonymous to add to a non-empty Firestore list, the merge otherwise.
\<close>

definition syncResultFavorites :: "Recipe list \<Rightarrow> Recipe list \<Rightarrow> Recipe list" where
  "syncResultFavorites firestoreFavorites anonymousFavorites =
     (if anonymousFavorites = [] \<and> firestoreFavorites \<noteq> [] then firestoreFavorites
      else mergeFavorites firestoreFavorites anonymousFavorites)"

definition syncResultGrocery ::
  "string_ops \<Rightarrow> GroceryItem list \<Rightarrow> GroceryItem list \<Rightarrow> GroceryItem list" where
  "syncResultGrocery u firestoreGrocery anonymousGrocery =
     (if anonymousGrocery = [] \<and> firestoreGrocery \<noteq> [] then firestoreGrocery
      else mergeGrocery u firestoreGrocery anonymousGrocery)"


section \<open>Stores, environment and controller state\<close>

text \<open>
  The entry of the anonymous store (AsyncStorage) under the controller's key: absent
  (\<open>getItem\<close> gives \<open>null\<close>), a string that \<open>JSON.parse\<close> rejects, or a serialized list.
\<close>

datatype 'a anon_entry = NoEntry | Unparsable | Entry "'a list"

text \<open>
  A grocery item as a store holds it: \<open>addedAt\<close> is whatever the wire gave (a string
  from JSON, a Firestore \<open>Timestamp\<close> with its \<open>toDate\<close>, a number, nothing). The other
  fields are taken as typed, as the source does.
\<close>

record StoredItem =
  stored_id :: string
  stored_name :: jsstring
  stored_checked :: bool
  stored_addedAt :: dateValue

text \<open>
  What surrounds one run of a handler: the clock, \<open>Date.parse\<close>, the string
  operations, \<open>auth.currentUser\<close>
  (its \<open>uid\<close>, or \<open>None\<close> when signed out), and which of the calls to Firestore and
  AsyncStorage throw. \<open>fallbackSetDocThrows\<close> is the \<open>setDoc\<close> inside a \<open>catch\<close> block.
\<close>

record env =
  now :: int
  dateParse :: "string \<Rightarrow> int option"
  stringOps :: string_ops
  currentUser :: "string option"
  getDocThrows :: bool
  setDocThrows :: bool
  fallbackSetDocThrows :: bool
  removeItemThrows :: bool

text \<open>\<open>{ ...item, addedAt: safeToDate(item.addedAt) }\<close>\<close>

definition withSafeDate :: "env \<Rightarrow> StoredItem \<Rightarrow> GroceryItem" where
  "withSafeDate e item =
     \<lparr>item_id = stored_id item, item_name = stored_name item,
      item_checked = stored_checked item,
      item_addedAt = safeToDate (now e) (dateParse e) (stored_addedAt item)\<rparr>"

text \<open>An item of the Local Cache as \<open>setDoc\<close> stores it: the \<open>Date\<close> itself.\<close>

definition toStored :: "GroceryItem \<Rightarrow> StoredItem" where
  "toStored item =
     \<lparr>stored_id = item_id item, stored_name = item_name item,
      stored_checked = item_checked item, stored_addedAt = DateObject (item_addedAt item)\<rparr>"

definition loadAnonymousGroceryList :: "env \<Rightarrow> StoredItem anon_entry \<Rightarrow> GroceryItem list" where
  "loadAnonymousGroceryList e storedGrocery =
     (case storedGrocery of
        Entry parsedItems \<Rightarrow> map (withSafeDate e) parsedItems
      | NoEntry \<Rightarrow> []
      | Unparsable \<Rightarrow> [])"

definition loadAnonymousFavorites :: "Recipe anon_entry \<Rightarrow> Recipe list" where
  "loadAnonymousFavorites storedFavorites =
     (case storedFavorites of
        Entry parsed \<Rightarrow> parsed
      | NoEntry \<Rightarrow> []
      | Unparsable \<Rightarrow> [])"

text \<open>
  The state of the grocery controller: the React state (\<open>groceryItems\<close>, \<open>loading\<close>,
  \<open>isLoggedIn\<close>), the refs, the two stores and the alerts shown so far (their titles).
  \<open>remoteGroceryList uid\<close> is the \<open>groceryList\<close> field of the document \<open>users/uid\<close>,
  \<open>None\<close> when the document does not exist or the field is missing. The timers that reset
  \<open>isUpdatingFromFirestore\<close> 100 ms later run after the handler has returned; they are
  the separate step \<open>groceryFlagTimer\<close>.
\<close>

record grocery_state =
  groceryItems :: "GroceryItem list"
  loading :: bool
  isLoggedIn :: bool
  currentUserIdRef :: "string option"
  isUpdatingFromFirestore :: bool
  isInitialized :: bool
  remoteGroceryList :: "string \<Rightarrow> StoredItem list option"
  anonymousGrocery :: "StoredItem anon_entry"
  alerts :: "string list"

record favorites_state =
  favorites :: "Recipe list"
  fav_loading :: bool
  fav_isLoggedIn :: bool
  fav_currentUserIdRef :: "string option"
  fav_isUpdatingFromFirestore :: bool
  remoteFavorites :: "string \<Rightarrow> Recipe list option"
  anonymousFavorites :: "Recipe anon_entry"
  fav_alerts :: "string list"

definition groceryFlagTimer :: "grocery_state \<Rightarrow> grocery_state" where
  "groceryFlagTimer st = st\<lparr>isUpdatingFromFirestore := False\<rparr>"

definition favoritesFlagTimer :: "favorites_state \<Rightarrow> favorites_state" where
  "favoritesFlagTimer st = st\<lparr>fav_isUpdatingFromFirestore := False\<rparr>"


section \<open>The realtime listeners\<close>

text \<open>
  The \<open>catch\<close> block of the grocery initialisation: create the document with an empty
  list, and empty the Local Cache when that write went through.
\<close>

definition groceryInitCatch :: "env \<Rightarrow> string \<Rightarrow> grocery_state \<Rightarrow> grocery_state" where
  "groceryInitCatch e uid st =
     (let st1 = st\<lparr>isUpdatingFromFirestore := True\<rparr>
      in if fallbackSetDocThrows e then st1
         else st1\<lparr>remoteGroceryList := (remoteGroceryList st1)(uid \<mapsto> []),
                  groceryItems := []\<rparr>)"

text \<open>The branch \<open>else if (!isInitialized.current)\<close> of the grocery listener.\<close>

definition groceryInitialize :: "env \<Rightarrow> string \<Rightarrow> grocery_state \<Rightarrow> grocery_state" where
  "groceryInitialize e uid st =
     (let st1 = st\<lparr>isInitialized := True\<rparr>;
          anonymousItems = loadAnonymousGroceryList e (anonymousGrocery st1);
          st2 = st1\<lparr>isUpdatingFromFirestore := True\<rparr>;
          st3 =
            (if setDocThrows e then groceryInitCatch e uid st2
             else
               let st4 = st2\<lparr>remoteGroceryList :=
                                 (remoteGroceryList st2)(uid \<mapsto> map toStored anonymousItems),
                               groceryItems := anonymousItems\<rparr>
               in if anonymousItems \<noteq> []
                  then (if removeItemThrows e then groceryInitCatch e uid st4
                        else st4\<lparr>anonymousGrocery := NoEntry\<rparr>)
                  else st4)
      in st3\<lparr>loading := False\<rparr>)"

text \<open>
  The \<open>onSnapshot\<close> callback of \<open>setupGroceryListener(uid)\<close>. \<open>docSnap\<close> is the
  \<open>groceryList\<close> field of the snapshot: \<open>None\<close> when \<open>docSnap.exists() &&
  docSnap.data().groceryList\<close> is falsy. An empty array is truthy, so a document that
  holds the empty list takes the first branch.
\<close>

definition groceryOnSnapshot ::
  "env \<Rightarrow> string \<Rightarrow> StoredItem list option \<Rightarrow> grocery_state \<Rightarrow> grocery_state" where
  "groceryOnSnapshot e uid docSnap st =
     (if isUpdatingFromFirestore st then st
      else if currentUser e \<noteq> Some uid then st
      else
        case docSnap of
          Some firestoreGrocery \<Rightarrow>
            st\<lparr>groceryItems := map (withSafeDate e) firestoreGrocery, loading := False\<rparr>
        | None \<Rightarrow> if \<not> isInitialized st then groceryInitialize e uid st else st)"

text \<open>The \<open>catch\<close> block of the favorites initialisation.\<close>

definition favoritesInitCatch :: "env \<Rightarrow> string \<Rightarrow> favorites_state \<Rightarrow> favorites_state" where
  "favoritesInitCatch e uid st =
     (let st1 = (if fallbackSetDocThrows e then st
                 else st\<lparr>remoteFavorites := (remoteFavorites st)(uid \<mapsto> [])\<rparr>)
      in st1\<lparr>favorites := []\<rparr>)"

definition favoritesInitialize :: "env \<Rightarrow> string \<Rightarrow> favorites_state \<Rightarrow> favorites_state" where
  "favoritesInitialize e uid st =
     (let anonymousFavs = loadAnonymousFavorites (anonymousFavorites st);
          st1 = st\<lparr>fav_isUpdatingFromFirestore := True\<rparr>
      in if setDocThrows e then favoritesInitCatch e uid st1
         else
           let st2 = st1\<lparr>remoteFavorites := (remoteFavorites st1)(uid \<mapsto> anonymousFavs),
                           favorites := anonymousFavs\<rparr>
           in if anonymousFavs \<noteq> []
              then (if removeItemThrows e then favoritesInitCatch e uid st2
                    else st2\<lparr>anonymousFavorites := NoEntry\<rparr>)
              else st2)"

definition favoritesOnSnapshot ::
  "env \<Rightarrow> string \<Rightarrow> Recipe list option \<Rightarrow> favorites_state \<Rightarrow> favorites_state" where
  "favoritesOnSnapshot e uid docSnap st =
     (if currentUser e \<noteq> Some uid then st
      else if fav_isUpdatingFromFirestore st then st
      else
        (case docSnap of
           Some firestoreFavorites \<Rightarrow> st\<lparr>favorites := firestoreFavorites\<rparr>
         | None \<Rightarrow> favoritesInitialize e uid st)
        \<lparr>fav_loading := False\<rparr>)"


section \<open>Sign-in and sign-out\<close>

definition cleanup :: "grocery_state \<Rightarrow> grocery_state" where
  "cleanup st = st\<lparr>isUpdatingFromFirestore := False, isInitialized := False\<rparr>"

text \<open>
  The \<open>onAuthStateChanged\<close> callbacks. With a user they record the owner and subscribe;
  the subscription is not part of the state, its callback is \<open>groceryOnSnapshot\<close>
  (\<open>favoritesOnSnapshot\<close>).
\<close>

definition groceryOnAuthStateChanged :: "env \<Rightarrow> string option \<Rightarrow> grocery_state \<Rightarrow> grocery_state" where
  "groceryOnAuthStateChanged e user st =
     (let st1 = cleanup st
      in case user of
           Some uid \<Rightarrow> st1\<lparr>currentUserIdRef := Some uid, isLoggedIn := True\<rparr>
         | None \<Rightarrow>
             st1\<lparr>currentUserIdRef := None, isLoggedIn := False,
                 groceryItems := loadAnonymousGroceryList e (anonymousGrocery st1),
                 loading := False\<rparr>)"

definition favoritesOnAuthStateChanged :: "string option \<Rightarrow> favorites_state \<Rightarrow> favorites_state" where
  "favoritesOnAuthStateChanged user st =
     (let st1 = st\<lparr>fav_isUpdatingFromFirestore := False\<rparr>
      in case user of
           Some uid \<Rightarrow> st1\<lparr>fav_currentUserIdRef := Some uid, fav_isLoggedIn := True\<rparr>
         | None \<Rightarrow>
             st1\<lparr>fav_currentUserIdRef := None, fav_isLoggedIn := False,
                 favorites := loadAnonymousFavorites (anonymousFavorites st1),
                 fav_loading := False\<rparr>)"

text \<open>
  A sign-in as account \<open>uid\<close>: the auth callback, then the first notification of the
  new subscription, which reports the document as it is. \<open>setupGroceryListener\<close>
  subscribes unless \<open>uid\<close> is empty, \<open>setupFavoritesListener\<close> unless \<open>uid\<close> is empty or
  \<open>auth.currentUser\<close> is null.
\<close>

definition grocerySignIn :: "env \<Rightarrow> string \<Rightarrow> grocery_state \<Rightarrow> grocery_state" where
  "grocerySignIn e uid st =
     (let st1 = groceryOnAuthStateChanged e (Some uid) st
      in if uid = [] then st1
         else groceryOnSnapshot e uid (remoteGroceryList st1 uid) st1)"

definition favoritesSignIn :: "env \<Rightarrow> string \<Rightarrow> favorites_state \<Rightarrow> favorites_state" where
  "favoritesSignIn e uid st =
     (let st1 = favoritesOnAuthStateChanged (Some uid) st
      in if uid = [] \<or> currentUser e = None then st1
         else favoritesOnSnapshot e uid (remoteFavorites st1 uid) st1)"


section \<open>The manual sync\<close>

text \<open>
  The body of the \<open>try\<close> block of \<open>syncGroceryList\<close>, for the signed-in user
  \<open>currentUserId\<close>. \<open>Inl\<close> is a throw, with the state as the throw leaves it; \<open>Inr\<close> is
  a normal end.
\<close>

definition syncGroceryListTry ::
  "env \<Rightarrow> string \<Rightarrow> grocery_state \<Rightarrow> grocery_state + grocery_state" where
  "syncGroceryListTry e currentUserId st =
     (let st1 = st\<lparr>loading := True\<rparr>
      in if getDocThrows e then Inl st1
         else
           let firestoreGrocery =
                 (case remoteGroceryList st1 currentUserId of
                    Some groceryData \<Rightarrow> map (withSafeDate e) groceryData
                  | None \<Rightarrow> []);
               anonymousItems = loadAnonymousGroceryList e (anonymousGrocery st1)
           in if anonymousItems = [] \<and> firestoreGrocery \<noteq> []
              then Inr (st1\<lparr>groceryItems := firestoreGrocery, loading := False\<rparr>)
              else
                let mergedGrocery = mergeGrocery (stringOps e) firestoreGrocery anonymousItems;
                    st2 = st1\<lparr>groceryItems := mergedGrocery, isUpdatingFromFirestore := True\<rparr>
                in if setDocThrows e then Inl st2
                   else
                     let st3 = st2\<lparr>remoteGroceryList :=
                                       (remoteGroceryList st2)
                                         (currentUserId \<mapsto> map toStored mergedGrocery)\<rparr>
                     in if anonymousItems \<noteq> []
                        then (if removeItemThrows e then Inl st3
                              else Inr (st3\<lparr>anonymousGrocery := NoEntry,
                                             alerts := alerts st3 @ [''Success'']\<rparr>))
                        else Inr st3)"

definition syncGroceryList :: "env \<Rightarrow> grocery_state \<Rightarrow> grocery_state" where
  "syncGroceryList e st =
     (case currentUser e of
        None \<Rightarrow> st
      | Some currentUserId \<Rightarrow>
          if currentUserId = [] then st
          else
            (case syncGroceryListTry e currentUserId st of
               Inl thrown \<Rightarrow>
                 thrown\<lparr>isUpdatingFromFirestore := False,
                        alerts := alerts thrown @ [''Sync Error'']\<rparr>
             | Inr done \<Rightarrow> done)
            \<lparr>loading := False\<rparr>)"

definition syncFavoritesTry ::
  "env \<Rightarrow> string \<Rightarrow> favorites_state \<Rightarrow> favorites_state + favorites_state" where
  "syncFavoritesTry e currentUserId st =
     (let st1 = st\<lparr>fav_loading := True\<rparr>
      in if getDocThrows e then Inl st1
         else
           let firestoreFavorites =
                 (case remoteFavorites st1 currentUserId of
                    Some favs \<Rightarrow> favs
                  | None \<Rightarrow> []);
               anonymousFavs = loadAnonymousFavorites (anonymousFavorites st1)
           in if anonymousFavs = [] \<and> firestoreFavorites \<noteq> []
              then Inr (st1\<lparr>favorites := firestoreFavorites, fav_loading := False\<rparr>)
              else
                let mergedFavorites = mergeFavorites firestoreFavorites anonymousFavs;
                    st2 = st1\<lparr>favorites := mergedFavorites, fav_isUpdatingFromFirestore := True\<rparr>
                in if setDocThrows e then Inl st2
                   else
                     let st3 = st2\<lparr>remoteFavorites :=
                                       (remoteFavorites st2)(currentUserId \<mapsto> mergedFavorites)\<rparr>
                     in if anonymousFavs \<noteq> []
                        then (if removeItemThrows e then Inl st3
                              else Inr (st3\<lparr>anonymousFavorites := NoEntry,
                                             fav_alerts := fav_alerts st3 @ [''Success'']\<rparr>))
                        else Inr st3)"

definition syncFavorites :: "env \<Rightarrow> favorites_state \<Rightarrow> favorites_state" where
  "syncFavorites e st =
     (case currentUser e of
        None \<Rightarrow> st
      | Some currentUserId \<Rightarrow>
          if currentUserId = [] then st
          else
            (case syncFavoritesTry e currentUserId st of
               Inl thrown \<Rightarrow>
                 thrown\<lparr>fav_isUpdatingFromFirestore := False,
                        fav_alerts := fav_alerts thrown @ [''Sync Error'']\<rparr>
             | Inr done \<Rightarrow> done)
            \<lparr>fav_loading := False\<rparr>)"


section \<open>A merge by key, and sample data\<close>

text \<open>
  The two merges are one loop over two identities. \<open>mergeBy\<close> is that loop with the
  identity as a parameter; the proofs go through it.
\<close>

fun mergeBy :: "('a \<Rightarrow> 'k) \<Rightarrow> 'a list \<Rightarrow> 'a list \<Rightarrow> 'a list" where
  "mergeBy k merged [] = merged"
| "mergeBy k merged (x # xs) =
     mergeBy k (if k x \<notin> k ` set merged then merged @ [x] else merged) xs"

definition soup :: Recipe where
  "soup = \<lparr>recipe_id = 1, recipe_name = ''Soup'', recipe_details = [], recipe_image = []\<rparr>"

definition pie :: Recipe where
  "pie = \<lparr>recipe_id = 2, recipe_name = ''Pie'', recipe_details = [], recipe_image = []\<rparr>"

definition oldPie :: Recipe where
  "oldPie = \<lparr>recipe_id = 2, recipe_name = ''OldPie'', recipe_details = [], recipe_image = []\<rparr>"

definition cake :: Recipe where
  "cake = \<lparr>recipe_id = 3, recipe_name = ''Cake'', recipe_details = [], recipe_image = []\<rparr>"


text \<open>
  Sample string operations for the concrete runs below: the white space and line
  terminators of ECMAScript, and a lowering of the capital letters of ASCII and Latin-1
  (U+00C0 to U+00DE without the multiplication sign), code unit by code unit. \<open>codeUnits\<close> turns an ASCII literal into its code units.
\<close>

definition codeUnits :: "string \<Rightarrow> jsstring" where
  "codeUnits s = map of_char s"

definition sampleWhiteSpace :: "16 word \<Rightarrow> bool" where
  "sampleWhiteSpace c \<longleftrightarrow>
     (let n = unat c
      in (0x09 \<le> n \<and> n \<le> 0x0D) \<or> n = 0x20 \<or> n = 0xA0 \<or> n = 0x1680 \<or>
         (0x2000 \<le> n \<and> n \<le> 0x200A) \<or> n = 0x2028 \<or> n = 0x2029 \<or> n = 0x202F \<or>
         n = 0x205F \<or> n = 0x3000 \<or> n = 0xFEFF)"

definition sampleLowerUnit :: "16 word \<Rightarrow> 16 word" where
  "sampleLowerUnit c =
     (let n = unat c
      in if (0x41 \<le> n \<and> n \<le> 0x5A) \<or> (0xC0 \<le> n \<and> n \<le> 0xDE \<and> n \<noteq> 0xD7)
         then c + 0x20 else c)"

definition sampleStrings :: string_ops where
  "sampleStrings = \<lparr>toLowerCase = map sampleLowerUnit, isWhiteSpace = sampleWhiteSpace\<rparr>"

definition milk :: GroceryItem where
  "milk = \<lparr>item_id = ''a'', item_name = codeUnits ''milk'', item_checked = False,
           item_addedAt = Date (Some 1)\<rparr>"

definition milkBought :: GroceryItem where
  "milkBought = \<lparr>item_id = ''b'', item_name = codeUnits ''Milk '', item_checked = True,
                 item_addedAt = Date (Some 2)\<rparr>"

definition eggs :: GroceryItem where
  "eggs = \<lparr>item_id = ''c'', item_name = codeUnits ''Eggs'', item_checked = False,
           item_addedAt = Date (Some 3)\<rparr>"

text \<open>
  \<open>milk\<close> followed by a no-break space (U+00A0), and \<open>p\<close>, a with circumflex, \<open>t\<close>,
  e with acute, in lower and in upper case.
\<close>

definition milkNbsp :: GroceryItem where
  "milkNbsp = \<lparr>item_id = ''f'', item_name = codeUnits ''milk'' @ [0xA0], item_checked = True,
               item_addedAt = Date (Some 6)\<rparr>"



definition noParse :: "string \<Rightarrow> int option" where
  "noParse s = None"

definition envU :: env where
  "envU = \<lparr>now = 1000, dateParse = noParse, stringOps = sampleStrings,
           currentUser = Some ''U'', getDocThrows = False,
           setDocThrows = False, fallbackSetDocThrows = False, removeItemThrows = False\<rparr>"

definition envWriteFails :: env where
  "envWriteFails = envU\<lparr>setDocThrows := True\<rparr>"

definition envReadFails :: env where
  "envReadFails = envU\<lparr>getDocThrows := True\<rparr>"

definition favAnonymous :: favorites_state where
  "favAnonymous =
     \<lparr>favorites = [soup], fav_loading = False, fav_isLoggedIn = False,
      fav_currentUserIdRef = None, fav_isUpdatingFromFirestore = False,
      remoteFavorites = Map.empty, anonymousFavorites = Entry [soup], fav_alerts = []\<rparr>"

definition favEmptyRemote :: favorites_state where
  "favEmptyRemote = favAnonymous\<lparr>remoteFavorites := [''U'' \<mapsto> []]\<rparr>"

definition favSignedIn :: favorites_state where
  "favSignedIn =
     \<lparr>favorites = [pie], fav_loading = False, fav_isLoggedIn = True,
      fav_currentUserIdRef = Some ''U'', fav_isUpdatingFromFirestore = False,
      remoteFavorites = [''U'' \<mapsto> [pie]], anonymousFavorites = Entry [oldPie, cake],
      fav_alerts = []\<rparr>"

definition groceryAnonymous :: grocery_state where
  "groceryAnonymous =
     \<lparr>groceryItems = [milk], loading = False, isLoggedIn = False, currentUserIdRef = None,
      isUpdatingFromFirestore = False, isInitialized = False,
      remoteGroceryList = Map.empty, anonymousGrocery = Entry [toStored milk], alerts = []\<rparr>"

definition grocerySignedIn :: grocery_state where
  "grocerySignedIn =
     \<lparr>groceryItems = [milkBought], loading = False, isLoggedIn = True,
      currentUserIdRef = Some ''U'', isUpdatingFromFirestore = False, isInitialized = True,
      remoteGroceryList = [''U'' \<mapsto> [toStored milkBought]],
      anonymousGrocery = Entry [toStored milk, toStored eggs], alerts = []\<rparr>"


section \<open>Strings: trimming, and the sample operations\<close>

lemma trim_Nil: "trim u [] = []"
  by (simp add: trim_def)

text \<open>What is left after dropping white space at both ends starts with no white space.\<close>

lemma dropWhile_rev_dropWhile:
  "dropWhile P (rev (dropWhile P (rev (dropWhile P s)))) = rev (dropWhile P (rev (dropWhile P s)))"
proof (cases "dropWhile P s")
  case Nil
  show ?thesis unfolding Nil by simp
next
  case (Cons x t)
  then have nP: "\<not> P x"
    using hd_dropWhile [of P s] by (metis list.sel(1) list.distinct(1))
  have "rev (dropWhile P (rev (x # t))) = x # rev (dropWhile P (rev t)) \<or>
        rev (dropWhile P (rev (x # t))) = [x]"
    using nP by (simp add: dropWhile_append)
  then have "\<exists>u. rev (dropWhile P (rev (x # t))) = x # u"
    by blast
  then obtain u where u: "rev (dropWhile P (rev (x # t))) = x # u" ..
  show ?thesis unfolding Cons u using nP by simp
qed

lemma trim_idem: "trim u (trim u s) = trim u s"
  by (simp add: trim_def dropWhile_rev_dropWhile)

text \<open>
  The sample lowering turns no code unit into white space and no white space into
  anything else, so it commutes with \<open>trim\<close>, and the key of a trimmed name is the key
  of the name.
\<close>

lemma unat_plus_32:
  fixes c :: "16 word"
  assumes "unat c \<le> 0xDE"
  shows "unat (c + 0x20) = unat c + 0x20"
proof -
  have "unat c + unat (0x20 :: 16 word) < 2 ^ LENGTH(16)"
    using assms by simp
  then have "unat (c + 0x20) = unat c + unat (0x20 :: 16 word)"
    by (simp only: unat_add_lem [THEN iffD1])
  then show ?thesis by simp
qed

lemma not_sampleWhiteSpace_letter:
  fixes c :: "16 word"
  assumes "(0x41 \<le> unat c \<and> unat c \<le> 0x7A) \<or> (0xC0 \<le> unat c \<and> unat c \<le> 0xFE)"
  shows "\<not> sampleWhiteSpace c"
proof -
  define n where "n = unat c"
  from assms have "(0x41 \<le> n \<and> n \<le> 0x7A) \<or> (0xC0 \<le> n \<and> n \<le> 0xFE)"
    by (simp add: n_def)
  then have "\<not> ((0x09 \<le> n \<and> n \<le> 0x0D) \<or> n = 0x20 \<or> n = 0xA0 \<or> n = 0x1680 \<or>
         (0x2000 \<le> n \<and> n \<le> 0x200A) \<or> n = 0x2028 \<or> n = 0x2029 \<or> n = 0x202F \<or>
         n = 0x205F \<or> n = 0x3000 \<or> n = 0xFEFF)"
    by arith
  then show ?thesis
    by (simp add: sampleWhiteSpace_def Let_def n_def)
qed

lemma sampleWhiteSpace_lower: "sampleWhiteSpace (sampleLowerUnit c) = sampleWhiteSpace c"
proof (cases "sampleLowerUnit c = c")
  case True
  then show ?thesis by simp
next
  case False
  then have r: "(0x41 \<le> unat c \<and> unat c \<le> 0x5A) \<or> (0xC0 \<le> unat c \<and> unat c \<le> 0xDE)"
    and l: "sampleLowerUnit c = c + 0x20"
    by (auto simp: sampleLowerUnit_def Let_def split: if_splits)
  from r have "unat c \<le> 0xDE" by arith
  then have u: "unat (c + 0x20) = unat c + 0x20" by (rule unat_plus_32)
  from r have "(0x41 \<le> unat c \<and> unat c \<le> 0x7A) \<or> (0xC0 \<le> unat c \<and> unat c \<le> 0xFE)"
    by arith
  then have a: "\<not> sampleWhiteSpace c" by (rule not_sampleWhiteSpace_letter)
  from r u have "(0x41 \<le> unat (c + 0x20) \<and> unat (c + 0x20) \<le> 0x7A) \<or>
      (0xC0 \<le> unat (c + 0x20) \<and> unat (c + 0x20) \<le> 0xFE)"
    by arith
  then have "\<not> sampleWhiteSpace (c + 0x20)" by (rule not_sampleWhiteSpace_letter)
  with a l show ?thesis by simp
qed

lemma dropWhile_sampleLower:
  "dropWhile sampleWhiteSpace (map sampleLowerUnit s) =
   map sampleLowerUnit (dropWhile sampleWhiteSpace s)"
  by (induction s) (simp_all add: sampleWhiteSpace_lower)

lemma trim_sampleLower:
  "trim sampleStrings (toLowerCase sampleStrings s) =
   toLowerCase sampleStrings (trim sampleStrings s)"
  by (simp add: trim_def sampleStrings_def dropWhile_sampleLower rev_map)

lemma sample_nameKey_trim:
  "nameKey sampleStrings (trim sampleStrings s) = nameKey sampleStrings s"
  by (simp add: nameKey_def trim_sampleLower trim_idem)

lemmas sample_string_defs =
  nameKey_def trim_def sampleStrings_def codeUnits_def sampleWhiteSpace_def sampleLowerUnit_def

lemma nameKey_samples:
  "nameKey sampleStrings (codeUnits ''milk'') = codeUnits ''milk''"
  "nameKey sampleStrings (codeUnits ''Milk '') = codeUnits ''milk''"
  "nameKey sampleStrings (codeUnits '' MILK'') = codeUnits ''milk''"
  "nameKey sampleStrings (codeUnits ''MILK'') = codeUnits ''milk''"
  "nameKey sampleStrings (codeUnits ''milk'' @ [0xA0]) = codeUnits ''milk''"
  "nameKey sampleStrings (codeUnits ''Eggs'') = codeUnits ''eggs''"
  "nameKey sampleStrings [0x70, 0xE2, 0x74, 0xE9] = [0x70, 0xE2, 0x74, 0xE9]"
  "nameKey sampleStrings [0x50, 0xC2, 0x54, 0xC9] = [0x70, 0xE2, 0x74, 0xE9]"
  "trim sampleStrings (codeUnits '' MILK'') = codeUnits ''MILK''"
  "trim sampleStrings (codeUnits ''milk'') = codeUnits ''milk''"
  "trim sampleStrings [0x50, 0xC2, 0x54, 0xC9] = [0x50, 0xC2, 0x54, 0xC9]"
  by (simp_all add: sample_string_defs)


section \<open>Favorites: one entry per id\<close>

lemma distinct_ids_filter:
  "distinct (map recipe_id favs) \<Longrightarrow> distinct (map recipe_id (filter P favs))"
  by (simp add: distinct_map_filter)

lemma applyFavoritesOp_distinct:
  "distinct (map recipe_id favs) \<Longrightarrow> distinct (map recipe_id (applyFavoritesOp favs x))"
proof (cases x)
  case (AddFavorite r)
  assume "distinct (map recipe_id favs)"
  then show ?thesis
    unfolding AddFavorite by (auto simp: addFavorite_def list_ex_iff)
next
  case (RemoveFavorite i)
  assume "distinct (map recipe_id favs)"
  then show ?thesis
    unfolding RemoveFavorite by (simp add: removeFavorite_def distinct_ids_filter)
next
  case (ToggleFavorite r)
  assume "distinct (map recipe_id favs)"
  then show ?thesis
    unfolding ToggleFavorite
    by (auto simp: toggleFavorite_def list_ex_iff distinct_ids_filter)
qed

lemma foldl_applyFavoritesOp_distinct:
  "distinct (map recipe_id favs) \<Longrightarrow> distinct (map recipe_id (foldl applyFavoritesOp favs ops))"
proof (induction ops arbitrary: favs)
  case Nil
  then show ?case by simp
next
  case (Cons x ops)
  from Cons.prems have "distinct (map recipe_id (applyFavoritesOp favs x))"
    by (rule applyFavoritesOp_distinct)
  then show ?case by (simp add: Cons.IH)
qed

text \<open>
  C7. Starting from a favorites list with pairwise distinct ids, every finite sequence
  of \<open>addFavorite\<close>, \<open>removeFavorite\<close> and \<open>toggleFavorite\<close> operations ends in a list with
  pairwise distinct ids, and \<open>addFavorite\<close> of a recipe whose id is already present
  returns the list unchanged.
\<close>

theorem favorites_dedup_invariant:
  assumes "distinct (map recipe_id favs)"
  shows "distinct (map recipe_id (runFavoritesOps favs ops)) \<and>
         (recipe_id r \<in> recipe_id ` set favs \<longrightarrow> addFavorite r favs = favs)"
  using assms
  by (auto simp: runFavoritesOps_def foldl_applyFavoritesOp_distinct addFavorite_def list_ex_iff)


theorem favorites_dedup_invariant_witness:
  "distinct (map recipe_id [soup, pie]) \<and>
   distinct (map recipe_id
     (runFavoritesOps [soup, pie] [AddFavorite oldPie, ToggleFavorite cake, RemoveFavorite 1])) \<and>
   addFavorite oldPie [soup, pie] = [soup, pie]"
  using favorites_dedup_invariant
    [of "[soup, pie]" "[AddFavorite oldPie, ToggleFavorite cake, RemoveFavorite 1]" oldPie]
  by (simp add: soup_def pie_def oldPie_def)


section \<open>Grocery list: one entry per name\<close>

lemma key_after_check_update:
  "(\<lambda>i. nameKey u (item_name i)) \<circ>
     (\<lambda>item. if Q item then item\<lparr>item_checked := b item\<rparr> else item)
   = (\<lambda>i. nameKey u (item_name i))"
  by (auto simp: fun_eq_iff)

lemma addGroceryItem_keys:
  assumes "\<forall>s. nameKey u (trim u s) = nameKey u s"
    and "distinct (map (\<lambda>i. nameKey u (item_name i)) xs)"
  shows "distinct (map (\<lambda>i. nameKey u (item_name i)) (addGroceryItem u n newId t xs))"
proof (cases "find (\<lambda>item. nameKey u (item_name item) = nameKey u n) xs")
  case None
  then have "nameKey u n \<notin> set (map (\<lambda>i. nameKey u (item_name i)) xs)"
    by (auto simp: find_None_iff)
  with assms None show ?thesis
    by (simp add: addGroceryItem_def)
next
  case (Some e)
  with assms show ?thesis
    by (simp add: addGroceryItem_def key_after_check_update)
qed

lemma applyGroceryOp_keys:
  assumes "\<forall>s. nameKey u (trim u s) = nameKey u s"
    and "distinct (map (\<lambda>i. nameKey u (item_name i)) xs)"
  shows "distinct (map (\<lambda>i. nameKey u (item_name i)) (applyGroceryOp u xs x))"
proof (cases x)
  case (AddGroceryItem n newId t)
  with assms show ?thesis by (simp add: addGroceryItem_keys)
next
  case (RemoveGroceryItem i)
  with assms show ?thesis by (simp add: removeGroceryItem_def distinct_map_filter)
next
  case (RemoveGroceryItemByName n)
  with assms show ?thesis by (simp add: removeGroceryItemByName_def distinct_map_filter)
next
  case (ToggleGroceryItem i)
  with assms show ?thesis by (simp add: toggleGroceryItem_def key_after_check_update)
next
  case ClearCheckedItems
  with assms show ?thesis by (simp add: clearCheckedItems_def distinct_map_filter)
next
  case ClearAllItems
  then show ?thesis by (simp add: clearAllItems_def)
qed

lemma foldl_applyGroceryOp_keys:
  "\<forall>s. nameKey u (trim u s) = nameKey u s \<Longrightarrow>
   distinct (map (\<lambda>i. nameKey u (item_name i)) xs) \<Longrightarrow>
   distinct (map (\<lambda>i. nameKey u (item_name i)) (foldl (applyGroceryOp u) xs ops))"
  by (induction ops arbitrary: xs) (simp_all add: applyGroceryOp_keys)

text \<open>
  C6. Starting from a grocery list with at most one entry per case-insensitive trimmed
  name (the empty list is one), after every finite sequence of \<open>addGroceryItem\<close>,
  \<open>removeGroceryItem\<close>, \<open>removeGroceryItemByName\<close>, \<open>toggleGroceryItem\<close>,
  \<open>clearCheckedItems\<close> and \<open>clearAllItems\<close> the unchecked items of the list have pairwise
  different keys: no two unchecked items have names that are equal case-insensitively
  after trimming. The string operations are any for which a name and the trimmed name
  have the same key, as it is in ECMAScript, where lowering neither makes nor removes
  white space.
\<close>

theorem grocery_dedup_invariant:
  assumes "\<forall>s. nameKey u (trim u s) = nameKey u s"
    and "distinct (map (\<lambda>item. nameKey u (item_name item)) items)"
  shows "distinct (map (\<lambda>item. nameKey u (item_name item))
           (filter (\<lambda>item. \<not> item_checked item) (runGroceryOps u items ops)))"
proof -
  have "distinct (map (\<lambda>item. nameKey u (item_name item)) (runGroceryOps u items ops))"
    using assms by (simp add: runGroceryOps_def foldl_applyGroceryOp_keys)
  then show ?thesis by (rule distinct_map_filter)
qed

theorem grocery_dedup_invariant_witness:
  "(\<forall>s. nameKey sampleStrings (trim sampleStrings s) = nameKey sampleStrings s) \<and>
   distinct (map (\<lambda>item. nameKey sampleStrings (item_name item)) [milkBought]) \<and>
   map item_name
     (runGroceryOps sampleStrings [milkBought]
        [AddGroceryItem (codeUnits '' MILK'') ''d'' 4, AddGroceryItem (codeUnits ''Eggs'') ''c'' 3,
         ToggleGroceryItem ''c'', ToggleGroceryItem ''c'',
         AddGroceryItem [0x70, 0xE2, 0x74, 0xE9] ''g'' 7,
         AddGroceryItem [0x50, 0xC2, 0x54, 0xC9] ''h'' 8,
         AddGroceryItem (codeUnits ''milk'') ''e'' 5]) =
     [codeUnits ''Milk '', codeUnits ''Eggs'', [0x70, 0xE2, 0x74, 0xE9]] \<and>
   distinct (map (\<lambda>item. nameKey sampleStrings (item_name item))
     (filter (\<lambda>item. \<not> item_checked item)
        (runGroceryOps sampleStrings [milkBought]
           [AddGroceryItem (codeUnits '' MILK'') ''d'' 4, AddGroceryItem (codeUnits ''Eggs'') ''c'' 3,
            ToggleGroceryItem ''c'', ToggleGroceryItem ''c'',
            AddGroceryItem [0x70, 0xE2, 0x74, 0xE9] ''g'' 7,
            AddGroceryItem [0x50, 0xC2, 0x54, 0xC9] ''h'' 8,
            AddGroceryItem (codeUnits ''milk'') ''e'' 5])))"
  using grocery_dedup_invariant
    [of sampleStrings "[milkBought]"
        "[AddGroceryItem (codeUnits '' MILK'') ''d'' 4, AddGroceryItem (codeUnits ''Eggs'') ''c'' 3,
          ToggleGroceryItem ''c'', ToggleGroceryItem ''c'',
          AddGroceryItem [0x70, 0xE2, 0x74, 0xE9] ''g'' 7,
          AddGroceryItem [0x50, 0xC2, 0x54, 0xC9] ''h'' 8,
          AddGroceryItem (codeUnits ''milk'') ''e'' 5]"]
    sample_nameKey_trim
  by (simp add: milkBought_def runGroceryOps_def addGroceryItem_def toggleGroceryItem_def
      sample_string_defs)


section \<open>Grocery list: removal by name\<close>

text \<open>
  C10. \<open>removeGroceryItemByName n\<close> leaves no item whose key equals the key of \<open>n\<close>,
  checked or not; the items with another key are all still there, unchanged and in the
  order they had; and the new list is a subsequence of the old one. This holds for
  every \<open>toLowerCase\<close> and every set of white space.
\<close>

theorem removeGroceryItemByName_removes_all_matches:
  "filter (\<lambda>item. nameKey u (item_name item) = nameKey u n)
     (removeGroceryItemByName u n items) = [] \<and>
   filter (\<lambda>item. nameKey u (item_name item) \<noteq> nameKey u n)
     (removeGroceryItemByName u n items) =
     filter (\<lambda>item. nameKey u (item_name item) \<noteq> nameKey u n) items \<and>
   subseq (removeGroceryItemByName u n items) items"
  by (simp add: removeGroceryItemByName_def)

theorem removeGroceryItemByName_removes_all_matches_witness:
  "removeGroceryItemByName sampleStrings (codeUnits ''MILK'') [milkNbsp, eggs, milkBought, milk]
     = [eggs]"
  using removeGroceryItemByName_removes_all_matches
    [of sampleStrings "codeUnits ''MILK''" "[milkNbsp, eggs, milkBought, milk]"]
  by (simp add: removeGroceryItemByName_def milk_def eggs_def milkBought_def milkNbsp_def
      sample_string_defs)


section \<open>Grocery list: reactivation\<close>

lemma map_update_unique:
  assumes "find P xs = Some e" "filter Q xs = [e]" "Q e"
  shows "\<exists>k < length xs. xs ! k = e \<and> map (\<lambda>x. if Q x then f x else x) xs = xs[k := f e]"
  using assms
proof (induction xs)
  case Nil
  then show ?case by simp
next
  case (Cons x xs)
  show ?case
  proof (cases "P x")
    case True
    with Cons.prems have xe: "x = e" by simp
    with Cons.prems have "filter Q xs = []" by simp
    then have "map (\<lambda>x. if Q x then f x else x) xs = xs"
      by (auto simp: filter_empty_conv intro: map_idI)
    with xe Cons.prems show ?thesis
      by (intro exI [of _ 0]) simp
  next
    case False
    with Cons.prems have fe: "find P xs = Some e" by simp
    then have "P e" by (auto simp: find_Some_iff)
    with False have "x \<noteq> e" by auto
    with Cons.prems have nQ: "\<not> Q x" and fl: "filter Q xs = [e]"
      by (auto split: if_splits)
    from Cons.IH [OF fe fl Cons.prems(3)] obtain k where
      k: "k < length xs" "xs ! k = e" "map (\<lambda>x. if Q x then f x else x) xs = xs[k := f e]"
      by blast
    with nQ show ?thesis
      by (intro exI [of _ "Suc k"]) simp
  qed
qed

text \<open>
  C5, as the code has it. For a name \<open>n\<close> that is not blank: when the first item of the
  list whose key equals the key of \<open>n\<close> is checked and is the only item that carries
  its id, \<open>addGroceryItem n\<close> returns the list with that one item's \<open>checked\<close> set to
  false and nothing else changed; no entry is added and the length is the same.
\<close>

theorem addGroceryItem_reactivates:
  assumes "trim u n \<noteq> []"
    and "find (\<lambda>item. nameKey u (item_name item) = nameKey u n) items = Some e"
    and "item_checked e"
    and "filter (\<lambda>item. item_id item = item_id e) items = [e]"
  shows "(\<exists>k < length items. items ! k = e \<and>
            addGroceryItem u n newId t items = items[k := e\<lparr>item_checked := False\<rparr>]) \<and>
         length (addGroceryItem u n newId t items) = length items"
proof -
  from assms(1) have "n \<noteq> []" by (auto simp: trim_Nil)
  from map_update_unique [OF assms(2) assms(4), of "\<lambda>item. item\<lparr>item_checked := False\<rparr>"]
  obtain k where "k < length items" "items ! k = e"
    "map (\<lambda>x. if item_id x = item_id e then x\<lparr>item_checked := False\<rparr> else x) items
       = items[k := e\<lparr>item_checked := False\<rparr>]"
    by auto
  with assms \<open>n \<noteq> []\<close> show ?thesis
    by (auto simp: addGroceryItem_def)
qed

theorem addGroceryItem_reactivates_witness:
  "trim sampleStrings (codeUnits '' MILK'') \<noteq> [] \<and>
   find (\<lambda>item. nameKey sampleStrings (item_name item) = nameKey sampleStrings (codeUnits '' MILK''))
     [eggs, milkBought] = Some milkBought \<and>
   item_checked milkBought \<and>
   filter (\<lambda>item. item_id item = item_id milkBought) [eggs, milkBought] = [milkBought] \<and>
   addGroceryItem sampleStrings (codeUnits '' MILK'') ''d'' 4 [eggs, milkBought] =
     [eggs, milkBought\<lparr>item_checked := False\<rparr>] \<and>
   length (addGroceryItem sampleStrings (codeUnits '' MILK'') ''d'' 4 [eggs, milkBought]) = 2"
  using addGroceryItem_reactivates
    [of sampleStrings "codeUnits '' MILK''" "[eggs, milkBought]" milkBought "''d''" 4]
  by (simp add: addGroceryItem_def eggs_def milkBought_def sample_string_defs)

text \<open>
  The claim as written fails where an unchecked item with the same key stands before
  the checked one: \<open>find\<close> returns the unchecked item, and the list comes back as it was,
  the checked item still checked.
\<close>

theorem addGroceryItem_reactivates_counterexample:
  "item_checked milkBought \<and>
   nameKey sampleStrings (item_name milkBought) = nameKey sampleStrings (codeUnits ''milk'') \<and>
   addGroceryItem sampleStrings (codeUnits ''milk'') ''d'' 4 [milk, milkBought] =
     [milk, milkBought]"
  by (simp add: addGroceryItem_def milk_def milkBought_def sample_string_defs)


section \<open>The manual sync: what a run leaves in the Local Cache\<close>

lemmas sync_defs =
  syncFavorites_def syncFavoritesTry_def syncGroceryList_def syncGroceryListTry_def

lemma syncFavorites_result:
  assumes "currentUser e = Some uid" and "uid \<noteq> []" and "\<not> getDocThrows e"
  shows "favorites (syncFavorites e st) =
           syncResultFavorites (case remoteFavorites st uid of Some favs \<Rightarrow> favs | None \<Rightarrow> [])
             (loadAnonymousFavorites (anonymousFavorites st))"
  using assms by (simp add: sync_defs syncResultFavorites_def Let_def)

lemma syncGroceryList_result:
  assumes "currentUser e = Some uid" and "uid \<noteq> []" and "\<not> getDocThrows e"
  shows "groceryItems (syncGroceryList e st) =
           syncResultGrocery (stringOps e)
             (case remoteGroceryList st uid of
                Some groceryData \<Rightarrow> map (withSafeDate e) groceryData | None \<Rightarrow> [])
             (loadAnonymousGroceryList e (anonymousGrocery st))"
  using assms by (simp add: sync_defs syncResultGrocery_def Let_def)

lemma mergeFavorites_Nil: "mergeFavorites m [] = m"
  by (simp add: mergeFavorites_def)

lemma mergeGrocery_Nil: "mergeGrocery u m [] = m"
  by (simp add: mergeGrocery_def)

text \<open>
  Two runs in a row, with every call going through: the second run reads the list the
  first one wrote and finds the anonymous store empty.
\<close>

lemma syncFavorites_twice:
  assumes "currentUser e = Some uid" and "uid \<noteq> []"
    and "\<not> getDocThrows e" and "\<not> setDocThrows e" and "\<not> removeItemThrows e"
    and "currentUser e' = Some uid" and "\<not> getDocThrows e'"
  shows "favorites (syncFavorites e' (syncFavorites e st)) = favorites (syncFavorites e st)"
  using assms
  by (simp add: syncFavorites_def syncFavoritesTry_def Let_def loadAnonymousFavorites_def
      mergeFavorites_Nil)

lemma withSafeDate_toStored:
  "isValidDate (item_addedAt item) \<Longrightarrow> withSafeDate e (toStored item) = item"
  by (auto simp: withSafeDate_def toStored_def safeToDate_def isValidDate_def)

lemma syncGroceryList_twice:
  assumes "currentUser e = Some uid" and "uid \<noteq> []"
    and "\<not> getDocThrows e" and "\<not> setDocThrows e" and "\<not> removeItemThrows e"
    and valid: "\<forall>item \<in> set (groceryItems (syncGroceryList e st)). isValidDate (item_addedAt item)"
  shows "groceryItems (syncGroceryList e (syncGroceryList e st)) =
           groceryItems (syncGroceryList e st)"
proof -
  let ?r = "groceryItems (syncGroceryList e st)"
  have "map (withSafeDate e) (map toStored ?r) = ?r"
    using valid by (simp add: withSafeDate_toStored map_idI)
  then show ?thesis
    using assms(1-5)
    by (auto simp: syncGroceryList_def syncGroceryListTry_def Let_def
        loadAnonymousGroceryList_def mergeGrocery_Nil split: if_splits)
qed


section \<open>The merge of the manual sync: idempotence and shape\<close>

lemma mergeFavorites_mergeBy: "mergeFavorites r a = mergeBy recipe_id r a"
  unfolding mergeFavorites_def
  by (induction a arbitrary: r) (auto simp: list_ex_iff image_iff)

lemma mergeGrocery_mergeBy: "mergeGrocery u r a = mergeBy (\<lambda>item. nameKey u (item_name item)) r a"
  unfolding mergeGrocery_def
  by (induction a arbitrary: r) (auto simp: list_ex_iff image_iff)


lemma mergeBy_keys: "k ` set (mergeBy k r a) = k ` set r \<union> k ` set a"
  by (induction a arbitrary: r) auto

lemma mergeBy_absorb: "k ` set a \<subseteq> k ` set m \<Longrightarrow> mergeBy k m a = m"
  by (induction a arbitrary: m) auto

lemma mergeBy_idem: "mergeBy k (mergeBy k r a) a = mergeBy k r a"
  by (rule mergeBy_absorb) (simp add: mergeBy_keys)


lemma syncResultFavorites_mergeBy: "syncResultFavorites r a = mergeBy recipe_id r a"
  by (auto simp: syncResultFavorites_def mergeFavorites_mergeBy)

lemma syncResultGrocery_mergeBy:
  "syncResultGrocery u r a = mergeBy (\<lambda>item. nameKey u (item_name item)) r a"
  by (auto simp: syncResultGrocery_def mergeGrocery_mergeBy)

text \<open>
  C2. The list a run of the manual sync produces from the remote list and the anonymous
  list does not change when the sync runs again on it: neither with the same anonymous
  list, nor with the anonymous store emptied by the first run. This holds for the
  favorites (identity: id) and for the grocery items (identity: the lowercased, trimmed
  name).
\<close>

theorem sync_merge_idempotent:
  "syncResultFavorites (syncResultFavorites remote anon) anon = syncResultFavorites remote anon \<and>
   syncResultFavorites (syncResultFavorites remote anon) [] = syncResultFavorites remote anon \<and>
   syncResultGrocery u (syncResultGrocery u remoteG anonG) anonG = syncResultGrocery u remoteG anonG \<and>
   syncResultGrocery u (syncResultGrocery u remoteG anonG) [] = syncResultGrocery u remoteG anonG"
  by (simp add: syncResultFavorites_mergeBy syncResultGrocery_mergeBy mergeBy_idem)





section \<open>\<open>safeToDate\<close>\<close>

text \<open>
  \<open>safeToDate\<close> has a value for every input: the one call that can throw, \<open>toDate()\<close>, is
  caught. The value is a valid \<open>Date\<close> for every input but one, and the current time for
  an input that carries no usable date.
\<close>

lemma safeToDate_valid_otherwise:
  assumes "v \<noteq> ToDateObject (ToDateReturns (Date None))"
  shows "isValidDate (safeToDate t parse v) \<and>
         (unparseable parse v \<longrightarrow> safeToDate t parse v = Date (Some t))"
proof (cases v)
  case (ToDateObject outcome)
  show ?thesis
  proof (cases outcome)
    case ToDateThrows
    with ToDateObject show ?thesis
      by (simp add: safeToDate_def isValidDate_def unparseable_def)
  next
    case (ToDateReturns d)
    with ToDateObject assms have "d \<noteq> Date None" by simp
    then have "getTime d \<noteq> None" by (cases d) simp
    with ToDateObject ToDateReturns show ?thesis
      by (simp add: safeToDate_def isValidDate_def unparseable_def)
  qed
qed (simp_all add: safeToDate_def isValidDate_def unparseable_def Let_def)

lemma safeToDate_samples:
  "safeToDate 1000 noParse (DateObject (Date (Some 7))) = Date (Some 7)"
  "safeToDate 1000 noParse (DateObject (Date None)) = Date (Some 1000)"
  "safeToDate 1000 noParse (StringValue ''soon'') = Date (Some 1000)"
  "safeToDate 1000 noParse (NumberValue (Finite 1700000000000)) = Date (Some 1700000000000)"
  "safeToDate 1000 noParse (NumberValue NaN) = Date (Some 1000)"
  "safeToDate 1000 noParse (ToDateObject (ToDateReturns (Date (Some 5)))) = Date (Some 5)"
  "safeToDate 1000 noParse (ToDateObject ToDateThrows) = Date (Some 1000)"
  "safeToDate 1000 noParse NullValue = Date (Some 1000)"
  by (simp_all add: safeToDate_def noParse_def timeClip_def)



section \<open>Echo suppression\<close>

text \<open>
  C9. While \<open>isUpdatingFromFirestore\<close> is set, a snapshot notification leaves the whole
  state of the controller as it was, the Local Cache included, whatever the snapshot
  holds: the grocery listener returns at its first test, the favorites listener at its
  first or its second.
\<close>

theorem echo_suppression:
  assumes "isUpdatingFromFirestore gs" and "fav_isUpdatingFromFirestore fs"
  shows "groceryOnSnapshot e uid docSnap gs = gs \<and>
         favoritesOnSnapshot e' uid' docSnap' fs = fs"
  using assms by (simp add: groceryOnSnapshot_def favoritesOnSnapshot_def)

theorem echo_suppression_witness:
  "isUpdatingFromFirestore (grocerySignedIn\<lparr>isUpdatingFromFirestore := True\<rparr>) \<and>
   fav_isUpdatingFromFirestore (favSignedIn\<lparr>fav_isUpdatingFromFirestore := True\<rparr>) \<and>
   groceryItems (groceryOnSnapshot envU ''U'' (Some [toStored eggs])
     (grocerySignedIn\<lparr>isUpdatingFromFirestore := True\<rparr>)) = [milkBought] \<and>
   favorites (favoritesOnSnapshot envU ''U'' (Some [cake])
     (favSignedIn\<lparr>fav_isUpdatingFromFirestore := True\<rparr>)) = [pie]"
  using echo_suppression [of "grocerySignedIn\<lparr>isUpdatingFromFirestore := True\<rparr>"
      "favSignedIn\<lparr>fav_isUpdatingFromFirestore := True\<rparr>"
      envU "''U''" "Some [toStored eggs]" envU "''U''" "Some [cake]"]
  by (simp add: grocerySignedIn_def favSignedIn_def)


section \<open>Migration at sign-in\<close>

lemmas sign_in_defs =
  favoritesSignIn_def favoritesOnAuthStateChanged_def favoritesOnSnapshot_def
  favoritesInitialize_def favoritesInitCatch_def grocerySignIn_def
  groceryOnAuthStateChanged_def cleanup_def groceryOnSnapshot_def groceryInitialize_def
  groceryInitCatch_def loadAnonymousFavorites_def loadAnonymousGroceryList_def

text \<open>
  C4, as the code has it. A sign-in as \<open>uid\<close> whose remote document has no field of the
  collection's kind, with the remote write and the removal from the anonymous store
  going through: the remote field becomes the list loaded from the anonymous store, the
  Local Cache becomes that list, and the anonymous store loads as empty afterwards (its
  entry is removed when the list was not empty).
\<close>

theorem migration_on_sign_in:
  assumes "currentUser e = Some uid" and "uid \<noteq> []"
    and "\<not> setDocThrows e" and "\<not> removeItemThrows e"
    and "remoteFavorites fs uid = None" and "remoteGroceryList gs uid = None"
  shows "remoteFavorites (favoritesSignIn e uid fs) uid =
           Some (loadAnonymousFavorites (anonymousFavorites fs)) \<and>
         favorites (favoritesSignIn e uid fs) = loadAnonymousFavorites (anonymousFavorites fs) \<and>
         anonymousFavorites (favoritesSignIn e uid fs) =
           (if loadAnonymousFavorites (anonymousFavorites fs) = [] then anonymousFavorites fs
            else NoEntry) \<and>
         loadAnonymousFavorites (anonymousFavorites (favoritesSignIn e uid fs)) = [] \<and>
         remoteGroceryList (grocerySignIn e uid gs) uid =
           Some (map toStored (loadAnonymousGroceryList e (anonymousGrocery gs))) \<and>
         groceryItems (grocerySignIn e uid gs) = loadAnonymousGroceryList e (anonymousGrocery gs) \<and>
         anonymousGrocery (grocerySignIn e uid gs) =
           (if loadAnonymousGroceryList e (anonymousGrocery gs) = [] then anonymousGrocery gs
            else NoEntry) \<and>
         loadAnonymousGroceryList e (anonymousGrocery (grocerySignIn e uid gs)) = []"
  using assms
  by (simp add: favoritesSignIn_def favoritesOnAuthStateChanged_def favoritesOnSnapshot_def
      favoritesInitialize_def grocerySignIn_def groceryOnAuthStateChanged_def cleanup_def
      groceryOnSnapshot_def groceryInitialize_def Let_def loadAnonymousFavorites_def
      loadAnonymousGroceryList_def)


theorem migration_on_sign_in_witness:
  "currentUser envU = Some ''U'' \<and> ''U'' \<noteq> [] \<and>
   \<not> setDocThrows envU \<and> \<not> removeItemThrows envU \<and>
   remoteFavorites favAnonymous ''U'' = None \<and> remoteGroceryList groceryAnonymous ''U'' = None \<and>
   favorites (favoritesSignIn envU ''U'' favAnonymous) = [soup] \<and>
   remoteFavorites (favoritesSignIn envU ''U'' favAnonymous) ''U'' = Some [soup] \<and>
   anonymousFavorites (favoritesSignIn envU ''U'' favAnonymous) = NoEntry \<and>
   groceryItems (grocerySignIn envU ''U'' groceryAnonymous) = [milk] \<and>
   remoteGroceryList (grocerySignIn envU ''U'' groceryAnonymous) ''U'' = Some [toStored milk] \<and>
   anonymousGrocery (grocerySignIn envU ''U'' groceryAnonymous) = NoEntry"
  using migration_on_sign_in [of envU "''U''" favAnonymous groceryAnonymous]
  by (simp add: envU_def favAnonymous_def groceryAnonymous_def loadAnonymousFavorites_def
      loadAnonymousGroceryList_def withSafeDate_def toStored_def safeToDate_def milk_def)

text \<open>
  The claim as written speaks of a remote document that holds no items. A document
  whose \<open>favorites\<close> field is the empty list holds none, but the empty array is truthy:
  the listener adopts it, the Local Cache becomes empty and the anonymous favorite stays
  in the anonymous store.
\<close>

theorem migration_on_sign_in_counterexample:
  "remoteFavorites favEmptyRemote ''U'' = Some [] \<and>
   loadAnonymousFavorites (anonymousFavorites favEmptyRemote) = [soup] \<and>
   favorites (favoritesSignIn envU ''U'' favEmptyRemote) = [] \<and>
   remoteFavorites (favoritesSignIn envU ''U'' favEmptyRemote) ''U'' = Some [] \<and>
   anonymousFavorites (favoritesSignIn envU ''U'' favEmptyRemote) = Entry [soup]"
  by (simp add: favEmptyRemote_def favAnonymous_def envU_def sign_in_defs)


section \<open>Failure of the manual sync\<close>

lemma syncFavoritesTry_Inl:
  assumes "syncFavoritesTry e uid st = Inl thrown"
  shows "fav_alerts thrown = fav_alerts st \<and>
         favorites thrown =
           (if getDocThrows e then favorites st
            else mergeFavorites (case remoteFavorites st uid of Some favs \<Rightarrow> favs | None \<Rightarrow> [])
                   (loadAnonymousFavorites (anonymousFavorites st)))"
  using assms by (auto simp: syncFavoritesTry_def Let_def split: if_splits)

lemma syncGroceryListTry_Inl:
  assumes "syncGroceryListTry e uid st = Inl thrown"
  shows "alerts thrown = alerts st \<and>
         groceryItems thrown =
           (if getDocThrows e then groceryItems st
            else mergeGrocery (stringOps e)
                   (case remoteGroceryList st uid of
                      Some groceryData \<Rightarrow> map (withSafeDate e) groceryData | None \<Rightarrow> [])
                   (loadAnonymousGroceryList e (anonymousGrocery st)))"
  using assms by (auto simp: syncGroceryListTry_def Let_def split: if_splits)

text \<open>
  C1, as the code has it. When the \<open>try\<close> block of the manual sync throws, the alert
  \<open>Sync Error\<close> is shown. The Local Cache is then what it was when the remote read threw;
  when a later call threw (the remote write, or the removal from the anonymous store) it
  is the complete merge of the remote list and the anonymous list, which the source puts
  into the Local Cache before it writes.
\<close>

theorem sync_failure_local_cache:
  assumes "currentUser e = Some uid" and "uid \<noteq> []"
  shows "(isl (syncFavoritesTry e uid fs) \<longrightarrow>
            fav_alerts (syncFavorites e fs) = fav_alerts fs @ [''Sync Error''] \<and>
            favorites (syncFavorites e fs) =
              (if getDocThrows e then favorites fs
               else mergeFavorites
                      (case remoteFavorites fs uid of Some favs \<Rightarrow> favs | None \<Rightarrow> [])
                      (loadAnonymousFavorites (anonymousFavorites fs)))) \<and>
         (isl (syncGroceryListTry e uid gs) \<longrightarrow>
            alerts (syncGroceryList e gs) = alerts gs @ [''Sync Error''] \<and>
            groceryItems (syncGroceryList e gs) =
              (if getDocThrows e then groceryItems gs
               else mergeGrocery (stringOps e)
                      (case remoteGroceryList gs uid of
                         Some groceryData \<Rightarrow> map (withSafeDate e) groceryData | None \<Rightarrow> [])
                      (loadAnonymousGroceryList e (anonymousGrocery gs))))"
proof (intro conjI impI)
  assume "isl (syncFavoritesTry e uid fs)"
  then obtain fthrown where t: "syncFavoritesTry e uid fs = Inl fthrown"
    by (cases "syncFavoritesTry e uid fs") simp_all
  from syncFavoritesTry_Inl [OF t] assms t
  show "fav_alerts (syncFavorites e fs) = fav_alerts fs @ [''Sync Error'']"
    by (simp add: syncFavorites_def)
  from syncFavoritesTry_Inl [OF t] assms t
  show "favorites (syncFavorites e fs) =
              (if getDocThrows e then favorites fs
               else mergeFavorites
                      (case remoteFavorites fs uid of Some favs \<Rightarrow> favs | None \<Rightarrow> [])
                      (loadAnonymousFavorites (anonymousFavorites fs)))"
    by (simp add: syncFavorites_def)
next
  assume "isl (syncGroceryListTry e uid gs)"
  then obtain gthrown where t: "syncGroceryListTry e uid gs = Inl gthrown"
    by (cases "syncGroceryListTry e uid gs") simp_all
  from syncGroceryListTry_Inl [OF t] assms t
  show "alerts (syncGroceryList e gs) = alerts gs @ [''Sync Error'']"
    by (simp add: syncGroceryList_def)
  from syncGroceryListTry_Inl [OF t] assms t
  show "groceryItems (syncGroceryList e gs) =
              (if getDocThrows e then groceryItems gs
               else mergeGrocery (stringOps e)
                      (case remoteGroceryList gs uid of
                         Some groceryData \<Rightarrow> map (withSafeDate e) groceryData | None \<Rightarrow> [])
                      (loadAnonymousGroceryList e (anonymousGrocery gs)))"
    by (simp add: syncGroceryList_def)
qed


theorem sync_failure_local_cache_witness:
  "currentUser envWriteFails = Some ''U'' \<and> ''U'' \<noteq> [] \<and>
   isl (syncFavoritesTry envWriteFails ''U'' favSignedIn) \<and>
   isl (syncGroceryListTry envWriteFails ''U'' grocerySignedIn) \<and>
   fav_alerts (syncFavorites envWriteFails favSignedIn) = [''Sync Error''] \<and>
   favorites (syncFavorites envWriteFails favSignedIn) = [pie, cake] \<and>
   alerts (syncGroceryList envWriteFails grocerySignedIn) = [''Sync Error''] \<and>
   groceryItems (syncGroceryList envWriteFails grocerySignedIn) = [milkBought, eggs] \<and>
   isl (syncFavoritesTry envReadFails ''U'' favSignedIn) \<and>
   isl (syncGroceryListTry envReadFails ''U'' grocerySignedIn) \<and>
   favorites (syncFavorites envReadFails favSignedIn) = [pie] \<and>
   groceryItems (syncGroceryList envReadFails grocerySignedIn) = [milkBought]"
  using sync_failure_local_cache [of envWriteFails "''U''" favSignedIn grocerySignedIn]
    sync_failure_local_cache [of envReadFails "''U''" favSignedIn grocerySignedIn]
  by (simp add: envWriteFails_def envReadFails_def envU_def favSignedIn_def grocerySignedIn_def
      syncFavoritesTry_def syncGroceryListTry_def loadAnonymousFavorites_def
      loadAnonymousGroceryList_def withSafeDate_def toStored_def safeToDate_def
      mergeFavorites_def mergeGrocery_def pie_def oldPie_def cake_def milk_def milkBought_def
      eggs_def sample_string_defs)

text \<open>
  The claim as written leaves the Local Cache unchanged on every failure. With the
  remote write throwing, the Local Cache goes from the remote list to the merged list,
  while the remote document keeps the old list.
\<close>

theorem sync_failure_local_cache_counterexample:
  "currentUser envWriteFails = Some ''U'' \<and>
   favorites favSignedIn = [pie] \<and>
   fav_alerts (syncFavorites envWriteFails favSignedIn) = [''Sync Error''] \<and>
   favorites (syncFavorites envWriteFails favSignedIn) = [pie, cake] \<and>
   remoteFavorites (syncFavorites envWriteFails favSignedIn) ''U'' = Some [pie]"
  by (simp add: envWriteFails_def envU_def favSignedIn_def sync_defs loadAnonymousFavorites_def
      mergeFavorites_def pie_def oldPie_def cake_def)

end
